theory Spec2Isabelle
  imports Main "HOL-Library.Multiset"
begin

section \<open>The lesson screen of think-alquran: data\<close>

text \<open>
  The quiz of a lesson lives in one React component, \<^verbatim>\<open>LessonScreen\<close>. Its
  \<^verbatim>\<open>useState\<close> cells are the fields of one record; every handler is a function from
  the state of the render it was created in to the state of the next render. A handler
  reads the cells of its own render only (\<^verbatim>\<open>setScore(score + 1)\<close> reads the old
  score), and every handler is invoked from the most recent render, so plain state
  passing is the semantics of the component.
\<close>

text \<open>\<^verbatim>\<open>interface Word\<close>; the field \<^verbatim>\<open>id\<close> is named \<open>wid\<close> here.\<close>

record Word =
  wid :: string
  arabic :: string
  transliteration :: string
  meaning :: string

text \<open>\<^verbatim>\<open>interface QuizQuestion\<close>.\<close>

record QuizQuestion =
  word :: Word
  options :: "string list"
  correctAnswer :: string

text \<open>The element type of the \<^verbatim>\<open>answers\<close> cell.\<close>

record Answer =
  word_id :: string
  is_correct :: bool
  time_spent :: int

text \<open>
  The state cells of the component that the quiz reads or writes. \<^verbatim>\<open>loading\<close> only
  selects the spinner and is left out. Times are the milliseconds of
  \<^verbatim>\<open>Date.now()\<close>.
\<close>

record LessonScreen =
  words :: "Word list"
  quizMode :: bool
  currentQuestion :: nat
  questions :: "QuizQuestion list"
  selectedAnswer :: "string option"
  showResult :: bool
  score :: nat
  answers :: "Answer list"
  questionStartTime :: int

text \<open>The cells as \<^verbatim>\<open>useState\<close> initialises them, once the lesson is loaded.\<close>

definition initialScreen :: "Word list \<Rightarrow> int \<Rightarrow> LessonScreen" where
  "initialScreen ws now =
     \<lparr>words = ws, quizMode = False, currentQuestion = 0, questions = [],
      selectedAnswer = None, showResult = False, score = 0, answers = [],
      questionStartTime = now\<rparr>"

section \<open>Question generation\<close>

text \<open>
  \<^verbatim>\<open>.sort(() => Math.random() - 0.5)\<close> sorts with a comparator that ignores its
  arguments and answers at random. The component has no random source of its own: it
  draws from the ambient \<^verbatim>\<open>Math.random\<close>. In the model the outcome of the \<open>k\<close>-th
  such call of the run is \<open>rnd k\<close> applied to the array, so that \<open>rnd\<close> stands for all
  the random choices of one run. Which order comes out is up to the engine; that the
  result holds the elements of the array, each as often as before, is the predicate
  \<open>rearranges\<close>, assumed of \<open>rnd\<close> wherever a statement depends on it.
\<close>

type_synonym randomSort = "nat \<Rightarrow> string list \<Rightarrow> string list"

definition rearranges :: "randomSort \<Rightarrow> bool" where
  "rearranges rnd = (\<forall>k xs. mset (rnd k xs) = mset xs)"

text \<open>
  \<^verbatim>\<open>words.filter(w => w.id !== word.id).map(w => w.meaning).sort(...).slice(0, 3)\<close>
\<close>

definition wrongOptions :: "(string list \<Rightarrow> string list) \<Rightarrow> Word list \<Rightarrow> Word \<Rightarrow> string list" where
  "wrongOptions sort1 ws w =
     take 3 (sort1 (map meaning (filter (\<lambda>w'. wid w' \<noteq> wid w) ws)))"

text \<open>The body of the callback of \<^verbatim>\<open>words.map\<close>, with its two sorts.\<close>

definition quizQuestion ::
  "(string list \<Rightarrow> string list) \<Rightarrow> (string list \<Rightarrow> string list) \<Rightarrow> Word list \<Rightarrow> Word \<Rightarrow> QuizQuestion" where
  "quizQuestion sort1 sort2 ws w =
     \<lparr>word = w,
      options = sort2 (wrongOptions sort1 ws w @ [meaning w]),
      correctAnswer = meaning w\<rparr>"

text \<open>
  \<^verbatim>\<open>words.map(word => ...)\<close>: the callback runs on the items in order; the item at
  position \<open>i\<close> makes the sort calls \<open>2 * i\<close> and \<open>2 * i + 1\<close> of the run. \<open>k\<close> is the
  number of sort calls made so far.
\<close>

fun quizQuestions :: "randomSort \<Rightarrow> nat \<Rightarrow> Word list \<Rightarrow> Word list \<Rightarrow> QuizQuestion list" where
  "quizQuestions rnd k ws [] = []"
| "quizQuestions rnd k ws (w # rest) =
     quizQuestion (rnd k) (rnd (Suc k)) ws w # quizQuestions rnd (Suc (Suc k)) ws rest"

definition startQuiz :: "randomSort \<Rightarrow> int \<Rightarrow> LessonScreen \<Rightarrow> LessonScreen" where
  "startQuiz rnd now s =
     s\<lparr>questions := quizQuestions rnd 0 (words s) (words s),
       quizMode := True,
       questionStartTime := now\<rparr>"

section \<open>The handlers of the quiz\<close>

text \<open>
  What a handler can end in other than a new state: the alert of the early return of
  \<^verbatim>\<open>handleSubmitAnswer\<close>, and the \<^verbatim>\<open>TypeError\<close> of reading a property of
  \<^verbatim>\<open>questions[currentQuestion]\<close> when that is \<^verbatim>\<open>undefined\<close>.
\<close>

datatype failure = PleaseSelectAnswer | TypeError

text \<open>
  JavaScript's \<^verbatim>\<open>!selectedAnswer\<close>: true of \<^verbatim>\<open>null\<close> and of the empty string.
\<close>

definition falsy :: "string option \<Rightarrow> bool" where
  "falsy a = (case a of None \<Rightarrow> True | Some v \<Rightarrow> v = [])"

definition handleAnswerSelect :: "string \<Rightarrow> LessonScreen \<Rightarrow> LessonScreen" where
  "handleAnswerSelect answer s =
     (if showResult s then s else s\<lparr>selectedAnswer := Some answer\<rparr>)"

text \<open>\<^verbatim>\<open>Math.floor((Date.now() - questionStartTime) / 1000)\<close>\<close>

definition timeSpent :: "int \<Rightarrow> LessonScreen \<Rightarrow> int" where
  "timeSpent now s = (now - questionStartTime s) div 1000"

definition handleSubmitAnswer :: "int \<Rightarrow> LessonScreen \<Rightarrow> failure + LessonScreen" where
  "handleSubmitAnswer now s =
     (if falsy (selectedAnswer s) then Inl PleaseSelectAnswer
      else if length (questions s) \<le> currentQuestion s then Inl TypeError
      else
        let question = questions s ! currentQuestion s;
            isCorrect = (selectedAnswer s = Some (correctAnswer question))
        in Inr (s\<lparr>score := (if isCorrect then score s + 1 else score s),
                 answers := answers s @
                   [\<lparr>word_id = wid (word question), is_correct = isCorrect,
                     time_spent = timeSpent now s\<rparr>],
                 showResult := True\<rparr>))"

text \<open>
  The body of the request of \<^verbatim>\<open>completeLesson\<close> and what the component shows
  afterwards. The message of the success alert is
  \<^verbatim>\<open>You scored ${...} out of ${questions.length}\<close>, kept as its two numbers.
\<close>

record payload =
  lesson_id :: string
  answers_sent :: "Answer list"
  total_time :: int

datatype alert = LessonComplete nat nat | FailedToSave

record completion =
  posted :: "payload option"
  shown :: alert

text \<open>
  What \<^verbatim>\<open>await AsyncStorage.getItem('auth_token')\<close> ends in: the promise is rejected,
  or it resolves to the stored token or to \<^verbatim>\<open>null\<close>.
\<close>

datatype stored = Rejected | Resolved "string option"

text \<open>
  \<^verbatim>\<open>completeLesson\<close>. \<open>lid\<close> is the route parameter \<^verbatim>\<open>id\<close>, \<open>tok\<close> is what reading
  the token ends in, and \<open>net token p\<close> says whether the request with that token in its
  header and the body \<open>p\<close> succeeds. Everything is inside the \<^verbatim>\<open>try\<close>: first the token
  is read, and when that is rejected the \<^verbatim>\<open>catch\<close> shows the failure alert and no
  request is built. Building the body then reads \<^verbatim>\<open>questions[currentQuestion].word\<close>,
  which throws when there is no such question, with the same end. The function sets no
  state cell.
\<close>

definition completeLesson ::
  "string \<Rightarrow> int \<Rightarrow> stored \<Rightarrow> (string option \<Rightarrow> payload \<Rightarrow> bool) \<Rightarrow> LessonScreen
     \<Rightarrow> completion" where
  "completeLesson lid now tok net s =
     (case tok of
        Rejected \<Rightarrow> \<lparr>posted = None, shown = FailedToSave\<rparr>
      | Resolved token \<Rightarrow>
          if length (questions s) \<le> currentQuestion s
          then \<lparr>posted = None, shown = FailedToSave\<rparr>
          else
            let question = questions s ! currentQuestion s;
                lastCorrect = (selectedAnswer s = Some (correctAnswer question));
                body = \<lparr>lesson_id = ''lesson_'' @ lid,
                        answers_sent = answers s @
                          [\<lparr>word_id = wid (word question), is_correct = lastCorrect,
                            time_spent = timeSpent now s\<rparr>],
                        total_time = 900\<rparr>
            in if net token body
               then \<lparr>posted = Some body,
                     shown = LessonComplete (score s + (if lastCorrect then 1 else 0))
                               (length (questions s))\<rparr>
               else \<lparr>posted = Some body, shown = FailedToSave\<rparr>)"

datatype next_result = Advanced LessonScreen | Finished completion

text \<open>
  \<^verbatim>\<open>handleNextQuestion\<close>. The test is \<^verbatim>\<open>currentQuestion < questions.length - 1\<close>
  on JavaScript numbers, so the subtraction is the integers' one.
\<close>

definition handleNextQuestion ::
  "string \<Rightarrow> int \<Rightarrow> stored \<Rightarrow> (string option \<Rightarrow> payload \<Rightarrow> bool) \<Rightarrow> LessonScreen
     \<Rightarrow> next_result" where
  "handleNextQuestion lid now tok net s =
     (if int (currentQuestion s) < int (length (questions s)) - 1
      then Advanced (s\<lparr>currentQuestion := currentQuestion s + 1,
                       selectedAnswer := None,
                       showResult := False,
                       questionStartTime := now\<rparr>)
      else Finished (completeLesson lid now tok net s))"

section \<open>The action button of the quiz view\<close>

text \<open>
  The footer of the quiz view renders one button: while \<^verbatim>\<open>showResult\<close> is false the
  submit button, disabled while \<^verbatim>\<open>!selectedAnswer\<close>, and the next button otherwise.
  A disabled \<^verbatim>\<open>TouchableOpacity\<close> does not call its \<^verbatim>\<open>onPress\<close>.
\<close>

datatype button = SubmitButton bool | NextButton

definition footer :: "LessonScreen \<Rightarrow> button" where
  "footer s = (if \<not> showResult s then SubmitButton (falsy (selectedAnswer s)) else NextButton)"

datatype press_result =
  Ignored
  | Submitted "failure + LessonScreen"
  | Nexted next_result

definition pressFooter ::
  "string \<Rightarrow> int \<Rightarrow> stored \<Rightarrow> (string option \<Rightarrow> payload \<Rightarrow> bool) \<Rightarrow> LessonScreen
     \<Rightarrow> press_result" where
  "pressFooter lid now tok net s =
     (case footer s of
        SubmitButton disabled \<Rightarrow>
          if disabled then Ignored else Submitted (handleSubmitAnswer now s)
      | NextButton \<Rightarrow> Nexted (handleNextQuestion lid now tok net s))"

text \<open>
  The option buttons are disabled while \<^verbatim>\<open>showResult\<close> is true; otherwise a press
  calls \<^verbatim>\<open>handleAnswerSelect\<close> with the option's text.
\<close>

definition pressOption :: "string \<Rightarrow> LessonScreen \<Rightarrow> LessonScreen" where
  "pressOption option s = (if showResult s then s else handleAnswerSelect option s)"

section \<open>What the component renders\<close>

text \<open>
  The return of the component once the lesson is loaded. In quiz mode it starts with
  \<^verbatim>\<open>const question = questions[currentQuestion]\<close> and
  \<^verbatim>\<open>const isCorrect = selectedAnswer === question.correctAnswer\<close>, which throws when
  there is no such question; the view then shows the question, whether the selected
  answer is right, and the action button. Outside quiz mode it lists the words above the
  start button, which is there for any number of words.
\<close>

datatype view = QuizView QuizQuestion bool button | LearningView "Word list"

definition render :: "LessonScreen \<Rightarrow> failure + view" where
  "render s =
     (if quizMode s then
        (if length (questions s) \<le> currentQuestion s then Inl TypeError
         else
           let question = questions s ! currentQuestion s;
               isCorrect = (selectedAnswer s = Some (correctAnswer question))
           in Inr (QuizView question isCorrect (footer s)))
      else Inr (LearningView (words s)))"

section \<open>The states of a session\<close>

text \<open>
  The component keeps no state tag. Question \<open>i\<close> awaits its answer while
  \<^verbatim>\<open>currentQuestion\<close> is \<open>i\<close>, the question exists and \<^verbatim>\<open>showResult\<close> is false;
  its answer has been submitted once \<^verbatim>\<open>showResult\<close> is true.
\<close>

definition awaitingAnswer :: "nat \<Rightarrow> LessonScreen \<Rightarrow> bool" where
  "awaitingAnswer i s = (currentQuestion s = i \<and> i < length (questions s) \<and> \<not> showResult s)"

definition answerSubmitted :: "nat \<Rightarrow> LessonScreen \<Rightarrow> bool" where
  "answerSubmitted i s = (currentQuestion s = i \<and> i < length (questions s) \<and> showResult s)"

text \<open>The sum of the \<^verbatim>\<open>time_spent\<close> fields of a sequence of answers.\<close>

definition elapsedSum :: "Answer list \<Rightarrow> int" where
  "elapsedSum as = sum_list (map time_spent as)"

text \<open>
  A learner going through the quiz view: for each question a press on an option, a press
  on the action button at time \<open>tSubmit\<close> and another at time \<open>tNext\<close>. The run ends
  with what \<^verbatim>\<open>completeLesson\<close> did, or with \<open>None\<close> when the presses run out or go
  nowhere.
\<close>

fun answerAll ::
  "string \<Rightarrow> stored \<Rightarrow> (string option \<Rightarrow> payload \<Rightarrow> bool) \<Rightarrow> (string \<times> int \<times> int) list
     \<Rightarrow> LessonScreen \<Rightarrow> completion option" where
  "answerAll lid tok net [] s = None"
| "answerAll lid tok net ((a, tSubmit, tNext) # rest) s =
     (case pressFooter lid tSubmit tok net (pressOption a s) of
        Submitted (Inr s1) \<Rightarrow>
          (case pressFooter lid tNext tok net s1 of
             Nexted (Advanced s2) \<Rightarrow> answerAll lid tok net rest s2
           | Nexted (Finished c) \<Rightarrow> Some c
           | _ \<Rightarrow> None)
      | _ \<Rightarrow> None)"

section \<open>Concrete lessons and runs\<close>

text \<open>
  Two outcomes of the random sort: the array left as it is, and the array reversed.
\<close>

definition keepOrder :: randomSort where
  "keepOrder k xs = xs"

definition reverseOrder :: randomSort where
  "reverseOrder k xs = rev xs"

text \<open>A request that succeeds.\<close>

definition netUp :: "string option \<Rightarrow> payload \<Rightarrow> bool" where
  "netUp token p = True"

text \<open>A token read that succeeds.\<close>

definition tokenStored :: stored where
  "tokenStored = Resolved (Some ''secret'')"

definition lesson4 :: "Word list" where
  "lesson4 =
     [\<lparr>wid = ''w1'', arabic = ''Allah'', transliteration = ''Allah'', meaning = ''God''\<rparr>,
      \<lparr>wid = ''w2'', arabic = ''Rabb'', transliteration = ''Rabb'', meaning = ''Lord''\<rparr>,
      \<lparr>wid = ''w3'', arabic = ''Rahman'', transliteration = ''Rahman'', meaning = ''Merciful''\<rparr>,
      \<lparr>wid = ''w4'', arabic = ''Rahim'', transliteration = ''Rahim'', meaning = ''Compassionate''\<rparr>]"

definition quiz4 :: LessonScreen where
  "quiz4 = startQuiz keepOrder 0 (initialScreen lesson4 0)"

text \<open>A lesson in which the first two words have the same meaning.\<close>

definition lessonShared :: "Word list" where
  "lessonShared =
     [\<lparr>wid = ''w1'', arabic = ''Allah'', transliteration = ''Allah'', meaning = ''God''\<rparr>,
      \<lparr>wid = ''w2'', arabic = ''Ilah'', transliteration = ''Ilah'', meaning = ''God''\<rparr>,
      \<lparr>wid = ''w3'', arabic = ''Rabb'', transliteration = ''Rabb'', meaning = ''Lord''\<rparr>]"

definition quizShared :: LessonScreen where
  "quizShared = startQuiz keepOrder 0 (initialScreen lessonShared 0)"

text \<open>
  A lesson of two words and a run through its quiz: both questions answered correctly,
  the first 5 seconds after the start, the second 3 seconds after it came up.
\<close>

definition lessonPair :: "Word list" where
  "lessonPair =
     [\<lparr>wid = ''w1'', arabic = ''Allah'', transliteration = ''Allah'', meaning = ''God''\<rparr>,
      \<lparr>wid = ''w2'', arabic = ''Rabb'', transliteration = ''Rabb'', meaning = ''Lord''\<rparr>]"

definition quizPair :: LessonScreen where
  "quizPair = startQuiz keepOrder 0 (initialScreen lessonPair 0)"

definition submittedOnce :: LessonScreen where
  "submittedOnce = projr (handleSubmitAnswer 5000 (handleAnswerSelect ''God'' quizPair))"

definition answeredPair :: LessonScreen where
  "answeredPair =
     projr (handleSubmitAnswer 9000
       (handleAnswerSelect ''Lord''
          (case handleNextQuestion ''1'' 6000 tokenStored netUp submittedOnce of
             Advanced s \<Rightarrow> s | Finished c \<Rightarrow> submittedOnce)))"

section \<open>Facts about question generation\<close>

lemma length_quizQuestions: "length (quizQuestions rnd k ws items) = length items"
  by (induction items arbitrary: k) simp_all

lemma nth_quizQuestions:
  "i < length items \<Longrightarrow>
   quizQuestions rnd k ws items ! i =
     quizQuestion (rnd (k + 2 * i)) (rnd (Suc (k + 2 * i))) ws (items ! i)"
proof (induction items arbitrary: k i)
  case Nil
  then show ?case by simp
next
  case (Cons w rest)
  show ?case
  proof (cases i)
    case 0
    then show ?thesis by simp
  next
    case (Suc j)
    with Cons.prems have "j < length rest" by simp
    from Cons.IH [OF this, of "Suc (Suc k)"] Suc show ?thesis by simp
  qed
qed

lemma in_quizQuestions:
  assumes "q \<in> set (quizQuestions rnd k ws items)"
  shows "\<exists>i < length items.
    q = quizQuestion (rnd (k + 2 * i)) (rnd (Suc (k + 2 * i))) ws (items ! i)"
proof -
  from assms obtain i where "i < length (quizQuestions rnd k ws items)"
    and "quizQuestions rnd k ws items ! i = q"
    by (auto simp: in_set_conv_nth)
  then show ?thesis
    using nth_quizQuestions [of i items rnd k ws] by (auto simp: length_quizQuestions)
qed

lemma rearrangesD: "rearranges rnd \<Longrightarrow> mset (rnd k xs) = mset xs"
  by (simp add: rearranges_def)

lemma rearranges_length: "rearranges rnd \<Longrightarrow> length (rnd k xs) = length xs"
  by (metis rearrangesD mset_eq_length)

lemma rearranges_set: "rearranges rnd \<Longrightarrow> set (rnd k xs) = set xs"
  by (metis rearrangesD mset_eq_setD)

lemma rearranges_distinct: "rearranges rnd \<Longrightarrow> distinct (rnd k xs) = distinct xs"
  by (metis rearrangesD mset_eq_imp_distinct_iff)

lemma rearranges_count_list: "rearranges rnd \<Longrightarrow> count_list (rnd k xs) x = count_list xs x"
  by (metis rearrangesD count_mset)

text \<open>With unique keys, filtering out the key of a member removes exactly that member.\<close>

lemma others_length:
  "distinct (map f xs) \<Longrightarrow> x \<in> set xs \<Longrightarrow>
   length (filter (\<lambda>y. f y \<noteq> f x) xs) = length xs - 1"
proof (induction xs)
  case Nil
  then show ?case by simp
next
  case (Cons y ys)
  show ?case
  proof (cases "f y = f x")
    case True
    with Cons.prems have "\<forall>z \<in> set ys. f z \<noteq> f x" by (auto simp: image_iff)
    then have "filter (\<lambda>z. f z \<noteq> f x) ys = ys" by (simp add: filter_id_conv)
    with True show ?thesis by simp
  next
    case False
    with Cons.prems have "x \<in> set ys" and "distinct (map f ys)" by auto
    from Cons.IH [OF this(2) this(1)] False \<open>x \<in> set ys\<close> show ?thesis
      by (cases ys) auto
  qed
qed

lemma options_length:
  assumes "rearranges rnd" "distinct (map wid ws)" "w \<in> set ws" "4 \<le> length ws"
  shows "length (options (quizQuestion (rnd j) (rnd k) ws w)) = 4"
proof -
  have "length (filter (\<lambda>w'. wid w' \<noteq> wid w) ws) = length ws - 1"
    using assms(2,3) by (rule others_length)
  with assms(4) have "3 \<le> length (rnd j (map meaning (filter (\<lambda>w'. wid w' \<noteq> wid w) ws)))"
    by (simp add: rearranges_length [OF assms(1)])
  then have "length (wrongOptions (rnd j) ws w) = 3"
    by (simp add: wrongOptions_def)
  then show ?thesis
    by (simp add: quizQuestion_def rearranges_length [OF assms(1)])
qed

lemma options_contain_meaning:
  assumes "rearranges rnd"
  shows "meaning w \<in> set (options (quizQuestion (rnd j) (rnd k) ws w))"
  by (simp add: quizQuestion_def rearranges_set [OF assms])

lemma wrongOptions_distinct:
  assumes "rearranges rnd" "distinct (map meaning ws)"
  shows "distinct (wrongOptions (rnd j) ws w)"
  using assms by (simp add: wrongOptions_def rearranges_distinct distinct_map_filter)

lemma wrongOptions_wrong:
  assumes "rearranges rnd" "distinct (map meaning ws)" "w \<in> set ws"
  shows "meaning w \<notin> set (wrongOptions (rnd j) ws w)"
proof
  assume "meaning w \<in> set (wrongOptions (rnd j) ws w)"
  then have "meaning w \<in> set (rnd j (map meaning (filter (\<lambda>w'. wid w' \<noteq> wid w) ws)))"
    unfolding wrongOptions_def by (rule in_set_takeD)
  then obtain w' where "w' \<in> set ws" "wid w' \<noteq> wid w" "meaning w' = meaning w"
    by (auto simp: rearranges_set [OF assms(1)])
  moreover from assms(2) have "inj_on meaning (set ws)" by (simp add: distinct_map)
  ultimately show False using assms(3) by (auto dest: inj_onD)
qed

lemma options_valid:
  assumes "rearranges rnd" "distinct (map meaning ws)" "w \<in> set ws"
  shows "count_list (options (quizQuestion (rnd j) (rnd k) ws w)) (meaning w) = 1
       \<and> distinct (options (quizQuestion (rnd j) (rnd k) ws w))"
  using wrongOptions_wrong [OF assms, of j] wrongOptions_distinct [OF assms(1,2), of j w]
  by (simp add: quizQuestion_def rearranges_count_list [OF assms(1)]
      rearranges_distinct [OF assms(1)])

lemma quizQuestions_runs_agree:
  assumes "rearranges rnd" and "rearranges rnd'"
  shows "map word (quizQuestions rnd k ws items) = map word (quizQuestions rnd' k' ws items)
    \<and> map correctAnswer (quizQuestions rnd k ws items)
        = map correctAnswer (quizQuestions rnd' k' ws items)
    \<and> map (\<lambda>q. length (options q)) (quizQuestions rnd k ws items)
        = map (\<lambda>q. length (options q)) (quizQuestions rnd' k' ws items)"
proof (induction items arbitrary: k k')
  case Nil
  show ?case by simp
next
  case (Cons w rest)
  have "length (options (quizQuestion (rnd k) (rnd (Suc k)) ws w))
      = length (options (quizQuestion (rnd' k') (rnd' (Suc k')) ws w))"
    by (simp add: quizQuestion_def wrongOptions_def rearranges_length [OF assms(1)]
        rearranges_length [OF assms(2)])
  with Cons.IH [of "Suc (Suc k)" "Suc (Suc k')"] show ?case
    by (simp add: quizQuestion_def)
qed

subsection \<open>The concrete quizzes, evaluated\<close>

lemma questions_quiz4:
  "questions quiz4 =
    [\<lparr>word = lesson4 ! 0, options = [''Lord'', ''Merciful'', ''Compassionate'', ''God''],
      correctAnswer = ''God''\<rparr>,
     \<lparr>word = lesson4 ! 1, options = [''God'', ''Merciful'', ''Compassionate'', ''Lord''],
      correctAnswer = ''Lord''\<rparr>,
     \<lparr>word = lesson4 ! 2, options = [''God'', ''Lord'', ''Compassionate'', ''Merciful''],
      correctAnswer = ''Merciful''\<rparr>,
     \<lparr>word = lesson4 ! 3, options = [''God'', ''Lord'', ''Merciful'', ''Compassionate''],
      correctAnswer = ''Compassionate''\<rparr>]"
  by (simp add: quiz4_def startQuiz_def initialScreen_def lesson4_def quizQuestion_def
      wrongOptions_def keepOrder_def)

lemma questions_quizShared:
  "questions quizShared =
    [\<lparr>word = lessonShared ! 0, options = [''God'', ''Lord'', ''God''],
      correctAnswer = ''God''\<rparr>,
     \<lparr>word = lessonShared ! 1, options = [''God'', ''Lord'', ''God''],
      correctAnswer = ''God''\<rparr>,
     \<lparr>word = lessonShared ! 2, options = [''God'', ''God'', ''Lord''],
      correctAnswer = ''Lord''\<rparr>]"
  by (simp add: quizShared_def startQuiz_def initialScreen_def lessonShared_def
      quizQuestion_def wrongOptions_def keepOrder_def)

lemma quizPair_eq:
  "quizPair =
     \<lparr>words = lessonPair, quizMode = True, currentQuestion = 0,
      questions =
        [\<lparr>word = lessonPair ! 0, options = [''Lord'', ''God''], correctAnswer = ''God''\<rparr>,
         \<lparr>word = lessonPair ! 1, options = [''God'', ''Lord''], correctAnswer = ''Lord''\<rparr>],
      selectedAnswer = None, showResult = False, score = 0, answers = [],
      questionStartTime = 0\<rparr>"
  by (simp add: quizPair_def startQuiz_def initialScreen_def lessonPair_def quizQuestion_def
      wrongOptions_def keepOrder_def)

lemma submittedOnce_eq:
  "submittedOnce =
     quizPair\<lparr>selectedAnswer := Some ''God'', showResult := True, score := 1,
       answers := [\<lparr>word_id = ''w1'', is_correct = True, time_spent = 5\<rparr>]\<rparr>"
  by (simp add: submittedOnce_def quizPair_eq handleSubmitAnswer_def handleAnswerSelect_def
      falsy_def timeSpent_def lessonPair_def)

lemma answeredPair_eq:
  "answeredPair =
     quizPair\<lparr>currentQuestion := 1, selectedAnswer := Some ''Lord'', showResult := True,
       score := 2,
       answers := [\<lparr>word_id = ''w1'', is_correct = True, time_spent = 5\<rparr>,
                   \<lparr>word_id = ''w2'', is_correct = True, time_spent = 3\<rparr>],
       questionStartTime := 6000\<rparr>"
  by (simp add: answeredPair_def submittedOnce_eq quizPair_eq handleNextQuestion_def
      handleSubmitAnswer_def handleAnswerSelect_def falsy_def timeSpent_def lessonPair_def)

section \<open>Claims about question generation\<close>

text \<open>
  C10. \<^verbatim>\<open>startQuiz\<close> keeps the order of the lesson: there are as many questions as
  words, and the question at position \<open>i\<close> has the word at position \<open>i\<close> as its
  \<^verbatim>\<open>word\<close> and that word's meaning as its \<^verbatim>\<open>correctAnswer\<close>, whatever the random
  sorts return.
\<close>

theorem startQuiz_keeps_order:
  assumes "i < length (words s)"
  shows "length (questions (startQuiz rnd now s)) = length (words s)
     \<and> word (questions (startQuiz rnd now s) ! i) = words s ! i
     \<and> correctAnswer (questions (startQuiz rnd now s) ! i) = meaning (words s ! i)"
  using nth_quizQuestions [OF assms, of rnd 0 "words s"]
  by (simp add: startQuiz_def length_quizQuestions quizQuestion_def)

theorem startQuiz_keeps_order_witness:
  "(2::nat) < length (words (initialScreen lesson4 0))
   \<and> length (questions (startQuiz reverseOrder 7 (initialScreen lesson4 0))) = 4
   \<and> wid (word (questions (startQuiz reverseOrder 7 (initialScreen lesson4 0)) ! 2)) = ''w3''
   \<and> correctAnswer (questions (startQuiz reverseOrder 7 (initialScreen lesson4 0)) ! 2)
        = ''Merciful''"
proof -
  have i: "(2::nat) < length (words (initialScreen lesson4 0))"
    by (simp add: initialScreen_def lesson4_def)
  have w: "length (words (initialScreen lesson4 0)) = 4"
     "meaning (words (initialScreen lesson4 0) ! 2) = ''Merciful''"
     "wid (words (initialScreen lesson4 0) ! 2) = ''w3''"
    by (simp_all add: initialScreen_def lesson4_def)
  from startQuiz_keeps_order [OF i, of reverseOrder 7] i show ?thesis
    by (simp add: w)
qed

text \<open>
  C8. For a lesson of at least 4 words (with the unique ids of the data model) there is
  one question per word, and each question has exactly 4 options, among them the
  meaning of its word, which is its \<^verbatim>\<open>correctAnswer\<close>.
\<close>

theorem startQuiz_four_options:
  assumes "rearranges rnd" and "distinct (map wid (words s))" and "4 \<le> length (words s)"
    and "i < length (words s)"
  shows "length (questions (startQuiz rnd now s)) = length (words s)
     \<and> length (options (questions (startQuiz rnd now s) ! i)) = 4
     \<and> correctAnswer (questions (startQuiz rnd now s) ! i) = meaning (words s ! i)
     \<and> meaning (words s ! i) \<in> set (options (questions (startQuiz rnd now s) ! i))"
proof -
  from assms(4) have w: "words s ! i \<in> set (words s)" by simp
  have q: "questions (startQuiz rnd now s) ! i =
      quizQuestion (rnd (0 + 2 * i)) (rnd (Suc (0 + 2 * i))) (words s) (words s ! i)"
    using nth_quizQuestions [OF assms(4), of rnd 0 "words s"] by (simp add: startQuiz_def)
  have "length (questions (startQuiz rnd now s)) = length (words s)"
    by (simp add: startQuiz_def length_quizQuestions)
  moreover have "length (options (questions (startQuiz rnd now s) ! i)) = 4"
    unfolding q using assms(1,2) w assms(3) by (rule options_length)
  moreover have "correctAnswer (questions (startQuiz rnd now s) ! i) = meaning (words s ! i)"
    unfolding q by (simp add: quizQuestion_def)
  moreover have "meaning (words s ! i) \<in> set (options (questions (startQuiz rnd now s) ! i))"
    unfolding q using assms(1) by (rule options_contain_meaning)
  ultimately show ?thesis by simp
qed

theorem startQuiz_four_options_witness:
  "rearranges reverseOrder \<and> distinct (map wid (words (initialScreen lesson4 0)))
   \<and> 4 \<le> length (words (initialScreen lesson4 0))
   \<and> (3::nat) < length (words (initialScreen lesson4 0))
   \<and> length (questions (startQuiz reverseOrder 0 (initialScreen lesson4 0))) = 4
   \<and> length (options (questions (startQuiz reverseOrder 0 (initialScreen lesson4 0)) ! 3)) = 4
   \<and> correctAnswer (questions (startQuiz reverseOrder 0 (initialScreen lesson4 0)) ! 3)
        = ''Compassionate''
   \<and> ''Compassionate''
        \<in> set (options (questions (startQuiz reverseOrder 0 (initialScreen lesson4 0)) ! 3))"
proof -
  have r: "rearranges reverseOrder"
    by (simp add: rearranges_def reverseOrder_def)
  have d: "distinct (map wid (words (initialScreen lesson4 0)))"
    by (simp add: initialScreen_def lesson4_def)
  have l: "4 \<le> length (words (initialScreen lesson4 0))"
    by (simp add: initialScreen_def lesson4_def)
  have i: "(3::nat) < length (words (initialScreen lesson4 0))"
    by (simp add: initialScreen_def lesson4_def)
  have w: "length (words (initialScreen lesson4 0)) = 4"
     "meaning (words (initialScreen lesson4 0) ! 3) = ''Compassionate''"
    by (simp_all add: initialScreen_def lesson4_def)
  from startQuiz_four_options [OF r d l i, of 0] r d l i show ?thesis
    by (simp add: w)
qed

text \<open>
  C1 says that every question has its \<^verbatim>\<open>correctAnswer\<close> exactly once among its
  options and no option twice, also when two words share a meaning. The code fills
  \<^verbatim>\<open>wrongOptions\<close>, its \<^verbatim>\<open>3 random wrong answers\<close>, by leaving out the word's own
  id, so another word with the same meaning brings the correct answer in again: for the
  first word of \<open>lessonShared\<close> the options hold \<^verbatim>\<open>God\<close>, the correct answer, twice.
\<close>

theorem startQuiz_repeats_correct_answer:
  "correctAnswer (questions quizShared ! 0) = ''God''
   \<and> options (questions quizShared ! 0) = [''God'', ''Lord'', ''God'']
   \<and> count_list (options (questions quizShared ! 0)) (correctAnswer (questions quizShared ! 0)) = 2
   \<and> \<not> distinct (options (questions quizShared ! 0))"
  by (simp add: questions_quizShared)

text \<open>
  The same happens whatever the sorts return: the pool of the first word of
  \<open>lessonShared\<close> has two entries, all of them are taken, and one is the correct
  answer.
\<close>

lemma shared_meaning_always_repeats:
  assumes "rearranges rnd"
  shows "count_list (options (questions (startQuiz rnd now (initialScreen lessonShared t)) ! 0))
           ''God'' = 2"
proof -
  have "length (rnd 0 [''God'', ''Lord'']) = 2"
    by (simp add: rearranges_length [OF assms])
  then have "take 3 (rnd 0 [''God'', ''Lord'']) = rnd 0 [''God'', ''Lord'']"
    by simp
  then show ?thesis
    by (simp add: startQuiz_def initialScreen_def lessonShared_def quizQuestion_def
        wrongOptions_def rearranges_count_list [OF assms])
qed

subsection \<open>The options are valid when no meaning is shared\<close>

text \<open>
  When the meanings of the words of the lesson are pairwise distinct, every question made
  by \<^verbatim>\<open>startQuiz\<close> has its \<^verbatim>\<open>correctAnswer\<close> exactly once among its options, and
  its options are pairwise distinct.
\<close>

lemma startQuiz_options_valid:
  assumes "rearranges rnd" and "distinct (map meaning (words s))"
    and "q \<in> set (questions (startQuiz rnd now s))"
  shows "count_list (options q) (correctAnswer q) = 1 \<and> distinct (options q)"
proof -
  from assms(3) obtain i where i: "i < length (words s)"
    and q: "q = quizQuestion (rnd (0 + 2 * i)) (rnd (Suc (0 + 2 * i))) (words s) (words s ! i)"
    using in_quizQuestions [of q rnd 0 "words s" "words s"] by (auto simp: startQuiz_def)
  from i have "words s ! i \<in> set (words s)" by simp
  from options_valid [OF assms(1,2) this] q show ?thesis
    by (simp add: quizQuestion_def)
qed

subsection \<open>What the questions depend on\<close>

text \<open>
  The questions are a function of the words and of what the sorts return: the clock and
  the other state cells do not enter.
\<close>

lemma startQuiz_same_draws:
  assumes "words s = words s'"
  shows "questions (startQuiz rnd now s) = questions (startQuiz rnd now' s')"
  using assms by (simp add: startQuiz_def)

text \<open>
  Whatever the sorts return, two runs on the same lesson give questions that agree in
  their words, in their correct answers and in their numbers of options; the options
  themselves and their order may differ, as they do between \<open>keepOrder\<close> and
  \<open>reverseOrder\<close> on \<open>lesson4\<close>.
\<close>

lemma startQuiz_runs_agree:
  assumes "rearranges rnd" and "rearranges rnd'"
  shows "map word (questions (startQuiz rnd now s)) = map word (questions (startQuiz rnd' now' s))
    \<and> map correctAnswer (questions (startQuiz rnd now s))
        = map correctAnswer (questions (startQuiz rnd' now' s))
    \<and> map (\<lambda>q. length (options q)) (questions (startQuiz rnd now s))
        = map (\<lambda>q. length (options q)) (questions (startQuiz rnd' now' s))"
  using quizQuestions_runs_agree [OF assms, of 0 "words s" "words s" 0]
  by (simp add: startQuiz_def)

lemma startQuiz_draws_matter:
  "questions (startQuiz keepOrder 0 (initialScreen lesson4 0))
     \<noteq> questions (startQuiz reverseOrder 0 (initialScreen lesson4 0))"
  by (simp add: startQuiz_def initialScreen_def lesson4_def quizQuestion_def
      wrongOptions_def keepOrder_def reverseOrder_def)

subsection \<open>A lesson without words\<close>

text \<open>
  C6 says that an empty list of words is refused and no quiz is started. The code
  validates nothing: on a lesson without words \<^verbatim>\<open>startQuiz\<close> raises nothing, stores
  no question and sets \<^verbatim>\<open>quizMode\<close>, and the render that follows throws a
  \<^verbatim>\<open>TypeError\<close> on the question that is not there.
\<close>

theorem startQuiz_empty_crashes:
  "quizMode (startQuiz rnd now (initialScreen [] t))
   \<and> questions (startQuiz rnd now (initialScreen [] t)) = []
   \<and> currentQuestion (startQuiz rnd now (initialScreen [] t)) = 0
   \<and> render (startQuiz rnd now (initialScreen [] t)) = Inl TypeError"
  by (simp add: startQuiz_def initialScreen_def render_def)

text \<open>With at least one word, the render after \<^verbatim>\<open>startQuiz\<close> shows the first question.\<close>

lemma startQuiz_renders_first_question:
  assumes "ws \<noteq> []"
  shows "render (startQuiz rnd now (initialScreen ws t))
     = Inr (QuizView (quizQuestion (rnd 0) (rnd (Suc 0)) ws (hd ws)) False (SubmitButton True))"
  using assms
  by (cases ws) (simp_all add: startQuiz_def initialScreen_def render_def footer_def falsy_def)

section \<open>Claims about the session\<close>

text \<open>
  C4. While question \<open>i\<close> awaits its answer and an answer is selected (a non-empty
  string, which is what \<^verbatim>\<open>!selectedAnswer\<close> lets through), \<^verbatim>\<open>handleSubmitAnswer\<close>
  appends exactly one answer, whose \<^verbatim>\<open>is_correct\<close> is the equality of the selected
  string with the question's \<^verbatim>\<open>correctAnswer\<close>, raises the score by one exactly when
  that holds, and leaves the session at question \<open>i\<close> with its answer submitted.
\<close>

theorem handleSubmitAnswer_records:
  assumes "awaitingAnswer i s" and "selectedAnswer s = Some a" and "a \<noteq> []"
  shows "\<exists>s'. handleSubmitAnswer now s = Inr s'
     \<and> answers s' = answers s @
          [\<lparr>word_id = wid (word (questions s ! i)),
            is_correct = (a = correctAnswer (questions s ! i)),
            time_spent = (now - questionStartTime s) div 1000\<rparr>]
     \<and> score s' = (if a = correctAnswer (questions s ! i) then score s + 1 else score s)
     \<and> answerSubmitted i s'
     \<and> questions s' = questions s"
  using assms
  by (simp add: awaitingAnswer_def answerSubmitted_def handleSubmitAnswer_def falsy_def
      timeSpent_def Let_def)

theorem handleSubmitAnswer_records_witness:
  "awaitingAnswer 0 (handleAnswerSelect ''Lord'' quizPair)
   \<and> selectedAnswer (handleAnswerSelect ''Lord'' quizPair) = Some ''Lord''
   \<and> ''Lord'' \<noteq> []
   \<and> (\<exists>s'. handleSubmitAnswer 4000 (handleAnswerSelect ''Lord'' quizPair) = Inr s'
     \<and> answers s' = [\<lparr>word_id = ''w1'', is_correct = False, time_spent = 4\<rparr>]
     \<and> score s' = 0
     \<and> answerSubmitted 0 s')"
proof -
  have a: "awaitingAnswer 0 (handleAnswerSelect ''Lord'' quizPair)"
    by (simp add: awaitingAnswer_def handleAnswerSelect_def quizPair_eq)
  have b: "selectedAnswer (handleAnswerSelect ''Lord'' quizPair) = Some ''Lord''"
    by (simp add: handleAnswerSelect_def quizPair_eq)
  have c: "''Lord'' \<noteq> []"
    by simp
  have v: "wid (word (questions (handleAnswerSelect ''Lord'' quizPair) ! 0)) = ''w1''"
    "correctAnswer (questions (handleAnswerSelect ''Lord'' quizPair) ! 0) = ''God''"
    "questionStartTime (handleAnswerSelect ''Lord'' quizPair) = 0"
    "score (handleAnswerSelect ''Lord'' quizPair) = 0"
    "answers (handleAnswerSelect ''Lord'' quizPair) = []"
    by (simp_all add: handleAnswerSelect_def quizPair_eq lessonPair_def)
  from handleSubmitAnswer_records [OF a b c, of 4000] obtain s'
    where "handleSubmitAnswer 4000 (handleAnswerSelect ''Lord'' quizPair) = Inr s'"
      and "answers s' = [\<lparr>word_id = ''w1'', is_correct = False, time_spent = 4\<rparr>]"
      and "score s' = 0" and "answerSubmitted 0 s'"
    unfolding v by auto
  with a b show ?thesis by blast
qed

text \<open>
  C3, as stated, fails: \<^verbatim>\<open>handleSubmitAnswer\<close> does not look at \<^verbatim>\<open>showResult\<close>.
  Called again on the state in which the first question has its answer, it returns
  normally with a second answer and the score raised again.
\<close>

theorem handleSubmitAnswer_twice_counterexample:
  "answerSubmitted 0 submittedOnce
   \<and> length (answers submittedOnce) = 1 \<and> score submittedOnce = 1
   \<and> \<not> isl (handleSubmitAnswer 7000 submittedOnce)
   \<and> length (answers (projr (handleSubmitAnswer 7000 submittedOnce))) = 2
   \<and> score (projr (handleSubmitAnswer 7000 submittedOnce)) = 2"
  by (simp add: answerSubmitted_def submittedOnce_eq quizPair_eq handleSubmitAnswer_def
      falsy_def Let_def)

text \<open>
  C3, amended. Once the answer of the current question is submitted, the quiz view offers
  no second submission: its action button is the next button, so a press on it runs
  \<^verbatim>\<open>handleNextQuestion\<close> and not \<^verbatim>\<open>handleSubmitAnswer\<close>, a press on an option changes
  nothing, and moving on to the next question leaves the answers and the score as they
  are. No error is raised.
\<close>

theorem submitted_offers_no_submit:
  assumes "answerSubmitted i s"
  shows "footer s = NextButton
     \<and> pressFooter lid now tok net s = Nexted (handleNextQuestion lid now tok net s)
     \<and> pressOption a s = s
     \<and> (\<forall>s'. handleNextQuestion lid now tok net s = Advanced s'
            \<longrightarrow> answers s' = answers s \<and> score s' = score s)"
  using assms
  by (auto simp: answerSubmitted_def footer_def pressFooter_def pressOption_def
      handleNextQuestion_def split: if_splits)

theorem submitted_offers_no_submit_witness:
  "answerSubmitted 0 submittedOnce
   \<and> footer submittedOnce = NextButton
   \<and> pressFooter ''1'' 6000 tokenStored netUp submittedOnce
        = Nexted (Advanced (submittedOnce\<lparr>currentQuestion := 1, selectedAnswer := None,
                    showResult := False, questionStartTime := 6000\<rparr>))
   \<and> pressOption ''Lord'' submittedOnce = submittedOnce
   \<and> answers (submittedOnce\<lparr>currentQuestion := 1, selectedAnswer := None,
          showResult := False, questionStartTime := 6000\<rparr>)
        = [\<lparr>word_id = ''w1'', is_correct = True, time_spent = 5\<rparr>]
   \<and> score (submittedOnce\<lparr>currentQuestion := 1, selectedAnswer := None,
          showResult := False, questionStartTime := 6000\<rparr>) = 1"
proof -
  have a: "answerSubmitted 0 submittedOnce"
    by (simp add: answerSubmitted_def submittedOnce_eq quizPair_eq)
  have n: "handleNextQuestion ''1'' 6000 tokenStored netUp submittedOnce
      = Advanced (submittedOnce\<lparr>currentQuestion := 1, selectedAnswer := None,
          showResult := False, questionStartTime := 6000\<rparr>)"
    by (simp add: handleNextQuestion_def submittedOnce_eq quizPair_eq)
  have v: "answers submittedOnce = [\<lparr>word_id = ''w1'', is_correct = True, time_spent = 5\<rparr>]"
    "score submittedOnce = 1"
    by (simp_all add: submittedOnce_eq)
  from submitted_offers_no_submit [OF a, of "''1''" 6000 tokenStored netUp "''Lord''"] a n v
  show ?thesis by simp
qed

text \<open>
  C7, as stated, fails: \<^verbatim>\<open>handleNextQuestion\<close> does not look at \<^verbatim>\<open>showResult\<close>.
  Called right after the quiz has started, it returns normally and moves to the second
  question.
\<close>

theorem handleNextQuestion_unanswered_counterexample:
  "awaitingAnswer 0 quizPair
   \<and> handleNextQuestion ''1'' 1000 tokenStored netUp quizPair
       = Advanced (quizPair\<lparr>currentQuestion := 1, selectedAnswer := None,
                     showResult := False, questionStartTime := 1000\<rparr>)"
  by (simp add: awaitingAnswer_def quizPair_eq handleNextQuestion_def)

text \<open>
  C7, amended. While question \<open>i\<close> awaits its answer, the quiz view offers no advance:
  its action button is the submit button (disabled while nothing is selected), so a press
  on it is ignored or runs \<^verbatim>\<open>handleSubmitAnswer\<close>, and neither that nor a press on an
  option changes \<^verbatim>\<open>currentQuestion\<close>. No error is raised.
\<close>

theorem awaiting_offers_no_next:
  assumes "awaitingAnswer i s"
  shows "footer s = SubmitButton (falsy (selectedAnswer s))
     \<and> (pressFooter lid now tok net s = Ignored
          \<or> pressFooter lid now tok net s = Submitted (handleSubmitAnswer now s))
     \<and> (\<forall>s'. handleSubmitAnswer now s = Inr s' \<longrightarrow> currentQuestion s' = i)
     \<and> currentQuestion (pressOption a s) = i"
  using assms
  by (auto simp: awaitingAnswer_def footer_def pressFooter_def pressOption_def
      handleSubmitAnswer_def handleAnswerSelect_def Let_def split: if_splits)

theorem awaiting_offers_no_next_witness:
  "awaitingAnswer 0 (handleAnswerSelect ''God'' quizPair)
   \<and> footer (handleAnswerSelect ''God'' quizPair) = SubmitButton False
   \<and> pressFooter ''1'' 5000 tokenStored netUp (handleAnswerSelect ''God'' quizPair)
        = Submitted (Inr submittedOnce)
   \<and> currentQuestion submittedOnce = 0
   \<and> currentQuestion (pressOption ''Lord'' (handleAnswerSelect ''God'' quizPair)) = 0"
proof -
  have a: "awaitingAnswer 0 (handleAnswerSelect ''God'' quizPair)"
    by (simp add: awaitingAnswer_def handleAnswerSelect_def quizPair_eq)
  have f: "\<not> falsy (selectedAnswer (handleAnswerSelect ''God'' quizPair))"
    by (simp add: falsy_def handleAnswerSelect_def quizPair_eq)
  have h: "handleSubmitAnswer 5000 (handleAnswerSelect ''God'' quizPair) = Inr submittedOnce"
    by (simp add: submittedOnce_eq handleSubmitAnswer_def handleAnswerSelect_def falsy_def
        timeSpent_def quizPair_eq lessonPair_def)
  have g: "pressFooter ''1'' 5000 tokenStored netUp (handleAnswerSelect ''God'' quizPair) \<noteq> Ignored"
    by (simp add: pressFooter_def footer_def falsy_def handleAnswerSelect_def quizPair_eq)
  from awaiting_offers_no_next [OF a, of "''1''" 5000 tokenStored netUp "''Lord''"] a f g h
  show ?thesis by simp
qed

section \<open>Claims about completion\<close>

text \<open>
  C5, as stated, fails: after the run through \<open>lessonPair\<close> the recorded answers took
  8 seconds together (11 with the answer that the request repeats), and the request
  says 900.
\<close>

theorem completeLesson_total_time_counterexample:
  "answerSubmitted 1 answeredPair
   \<and> elapsedSum (answers answeredPair) = 8
   \<and> map_option total_time (posted (completeLesson ''1'' 9500 tokenStored netUp answeredPair)) = Some 900
   \<and> map_option (elapsedSum \<circ> answers_sent)
        (posted (completeLesson ''1'' 9500 tokenStored netUp answeredPair)) = Some 11"
  by (simp add: answerSubmitted_def answeredPair_eq quizPair_eq completeLesson_def netUp_def tokenStored_def
      elapsedSum_def timeSpent_def)

text \<open>
  C5, amended. Whenever the current question has its answer and reading the token
  succeeds, \<^verbatim>\<open>completeLesson\<close> sends a request whose \<^verbatim>\<open>total_time\<close> is the constant
  900, whatever the answers' \<^verbatim>\<open>time_spent\<close> values are, and whose \<^verbatim>\<open>lesson_id\<close> is
  \<^verbatim>\<open>lesson_\<close> followed by the route parameter; when reading the token fails, it sends
  nothing and shows the failure alert. Every request it sends has \<^verbatim>\<open>total_time\<close> 900.
  The request has no field for a score percentage.
\<close>

theorem completeLesson_total_time:
  assumes "answerSubmitted i s"
  shows "(\<forall>token. tok = Resolved token \<longrightarrow>
            (\<exists>p. posted (completeLesson lid now tok net s) = Some p
               \<and> total_time p = 900 \<and> lesson_id p = ''lesson_'' @ lid))
     \<and> (tok = Rejected \<longrightarrow>
            completeLesson lid now tok net s = \<lparr>posted = None, shown = FailedToSave\<rparr>)
     \<and> (\<forall>p. posted (completeLesson lid now tok net s) = Some p \<longrightarrow> total_time p = 900)"
  using assms
  by (cases tok) (auto simp: answerSubmitted_def completeLesson_def Let_def)

theorem completeLesson_total_time_witness:
  "answerSubmitted 1 answeredPair
   \<and> (\<exists>p. posted (completeLesson ''1'' 9500 tokenStored netUp answeredPair) = Some p
     \<and> total_time p = 900 \<and> lesson_id p = ''lesson_1'')
   \<and> completeLesson ''1'' 9500 Rejected netUp answeredPair
        = \<lparr>posted = None, shown = FailedToSave\<rparr>"
proof -
  have a: "answerSubmitted 1 answeredPair"
    by (simp add: answerSubmitted_def answeredPair_eq quizPair_eq)
  from completeLesson_total_time [OF a, of tokenStored "''1''" 9500 netUp]
    completeLesson_total_time [OF a, of Rejected "''1''" 9500 netUp] a
  show ?thesis by (simp add: tokenStored_def)
qed

text \<open>
  C2 says that the request of a finished session carries one answer per question. On the
  run through \<open>lessonPair\<close>, two questions each answered once, the code sends three:
  \<^verbatim>\<open>handleSubmitAnswer\<close> has stored the answer to the last question, and
  \<^verbatim>\<open>completeLesson\<close> appends it once more. The alert counts it twice as well and
  reports 3 out of 2.
\<close>

theorem completeLesson_repeats_last_answer:
  "answerAll ''1'' tokenStored netUp [(''God'', 5000, 6000), (''Lord'', 9000, 9500)] quizPair =
     Some \<lparr>posted = Some \<lparr>lesson_id = ''lesson_1'',
              answers_sent =
                [\<lparr>word_id = ''w1'', is_correct = True, time_spent = 5\<rparr>,
                 \<lparr>word_id = ''w2'', is_correct = True, time_spent = 3\<rparr>,
                 \<lparr>word_id = ''w2'', is_correct = True, time_spent = 3\<rparr>],
              total_time = 900\<rparr>,
           shown = LessonComplete 3 2\<rparr>"
  by (simp add: quizPair_eq pressOption_def pressFooter_def footer_def handleAnswerSelect_def
      handleSubmitAnswer_def handleNextQuestion_def completeLesson_def falsy_def timeSpent_def
      netUp_def tokenStored_def lessonPair_def)

subsection \<open>Every finished session sends one answer too many\<close>

lemma completeLesson_appends:
  assumes "currentQuestion s < length (questions s)" and "tok = Resolved token"
  shows "\<exists>p. posted (completeLesson lid now tok net s) = Some p
     \<and> length (answers_sent p) = length (answers s) + 1"
  using assms by (simp add: completeLesson_def Let_def)

text \<open>
  From a state in which question \<open>currentQuestion s\<close> awaits its answer and the earlier
  questions have one answer each, answering every remaining question once ends, when
  the token can be read, in a request with one answer more than there are questions.
\<close>

lemma answerAll_posts_one_more:
  assumes "\<not> showResult s" and "taps \<noteq> []"
    and "currentQuestion s + length taps = length (questions s)"
    and "length (answers s) = currentQuestion s"
    and "\<forall>t \<in> set taps. fst t \<noteq> []"
    and "tok = Resolved token"
  shows "\<exists>c p. answerAll lid tok net taps s = Some c \<and> posted c = Some p
     \<and> length (answers_sent p) = length (questions s) + 1"
  using assms
proof (induction taps arbitrary: s)
  case Nil
  then show ?case by simp
next
  case (Cons t rest)
  obtain a tSubmit tNext where t: "t = (a, tSubmit, tNext)" by (cases t)
  with Cons.prems have a: "a \<noteq> []" by simp
  define s0 where "s0 = s\<lparr>selectedAnswer := Some a\<rparr>"
  from Cons.prems(1) have p0: "pressOption a s = s0"
    by (simp add: pressOption_def handleAnswerSelect_def s0_def)
  from Cons.prems(3) have lt: "currentQuestion s < length (questions s)" by simp
  define s1 where "s1 = projr (handleSubmitAnswer tSubmit s0)"
  from a lt Cons.prems(1) have h1: "handleSubmitAnswer tSubmit s0 = Inr s1"
    by (simp add: s1_def s0_def handleSubmitAnswer_def falsy_def Let_def)
  from a Cons.prems(1) have p1: "pressFooter lid tSubmit tok net s0 = Submitted (Inr s1)"
    by (simp add: pressFooter_def footer_def s0_def falsy_def h1 [unfolded s0_def])
  from a lt have s1: "showResult s1" "currentQuestion s1 = currentQuestion s"
    "questions s1 = questions s" "length (answers s1) = length (answers s) + 1"
    by (simp_all add: s1_def s0_def handleSubmitAnswer_def falsy_def Let_def)
  from s1(1) have p2:
    "pressFooter lid tNext tok net s1 = Nexted (handleNextQuestion lid tNext tok net s1)"
    by (simp add: pressFooter_def footer_def)
  show ?case
  proof (cases rest)
    case Nil
    with Cons.prems(3) s1 have "\<not> int (currentQuestion s1) < int (length (questions s1)) - 1"
      by simp
    then have n:
      "handleNextQuestion lid tNext tok net s1 = Finished (completeLesson lid tNext tok net s1)"
      by (simp add: handleNextQuestion_def)
    from lt s1 have "currentQuestion s1 < length (questions s1)" by simp
    from completeLesson_appends [OF this Cons.prems(6), of lid tNext net]
    obtain p where "posted (completeLesson lid tNext tok net s1) = Some p"
      and "length (answers_sent p) = length (answers s1) + 1" by blast
    with Nil Cons.prems(3,4) s1 show ?thesis
      by (simp add: t p0 p1 p2 n)
  next
    case (Cons t' rest')
    define s2 where "s2 = s1\<lparr>currentQuestion := currentQuestion s1 + 1,
      selectedAnswer := None, showResult := False, questionStartTime := tNext\<rparr>"
    from Cons s1 have "int (currentQuestion s1) < int (length (questions s1)) - 1"
      using \<open>currentQuestion s + length (t # rest) = length (questions s)\<close> by simp
    then have n: "handleNextQuestion lid tNext tok net s1 = Advanced s2"
      by (simp add: handleNextQuestion_def s2_def)
    have "\<exists>c p. answerAll lid tok net rest s2 = Some c \<and> posted c = Some p
       \<and> length (answers_sent p) = length (questions s2) + 1"
    proof (rule Cons.IH)
      show "\<not> showResult s2" by (simp add: s2_def)
      show "rest \<noteq> []" using Cons by simp
      show "currentQuestion s2 + length rest = length (questions s2)"
        using \<open>currentQuestion s + length (t # rest) = length (questions s)\<close> s1
        by (simp add: s2_def)
      show "length (answers s2) = currentQuestion s2"
        using \<open>length (answers s) = currentQuestion s\<close> s1 by (simp add: s2_def)
      show "\<forall>t \<in> set rest. fst t \<noteq> []"
        using \<open>\<forall>t \<in> set (t # rest). fst t \<noteq> []\<close> by simp
      show "tok = Resolved token" by (rule Cons.prems(6))
    qed
    moreover have "questions s2 = questions s" using s1 by (simp add: s2_def)
    ultimately show ?thesis
      by (simp add: t p0 p1 p2 n)
  qed
qed

end
